theory Spec2Isabelle
  imports Complex_Main "HOL-Library.Word" "HOL-Library.Sublist" "HOL-Library.AList"
begin

section \<open>Values shared by the services\<close>

text \<open>
  A JavaScript string is a sequence of UTF-16 code units and \<open>.length\<close> counts them.
  Here a \<^typ>\<open>string\<close> is that sequence, one \<^typ>\<open>char\<close> per code unit, for the code
  units U+0000 to U+00FF. A \<open>Uint8Array\<close> is a list of bytes.

  Every exception thrown in the modelled code is a JavaScript \<open>Error\<close> carrying a message,
  so \<open>error instanceof Error ? error.message : String(error)\<close> reads the message.
\<close>

type_synonym path = string
type_synonym bytes = "8 word list"

datatype error = Error (message: string)

text \<open>\<open>String(error)\<close> of an \<open>Error\<close> object: its name, then the message unless empty.\<close>

definition error_toString :: "error \<Rightarrow> string" where
  "error_toString e = (if message e = [] then ''Error'' else ''Error: '' @ message e)"

text \<open>What \<open>vscode.window.showInformationMessage\<close> and \<open>showErrorMessage\<close> display.\<close>

datatype notification = ShowInformationMessage string | ShowErrorMessage string

section \<open>The host: \<open>vscode.workspace.fs\<close>, \<open>path\<close> and \<open>Buffer\<close>\<close>

text \<open>
  The editor's file API and Node's \<open>path\<close> and \<open>Buffer\<close> are libraries, not code of this
  repository, so the services take them as a parameter: a record of operations over a
  storage state \<open>'s\<close>. An operation that throws returns \<open>Inl\<close> and leaves the storage
  as it was; \<open>stat\<close> and \<open>readFile\<close> never change it.
\<close>

record 's host =
  fs_stat :: "'s \<Rightarrow> path \<Rightarrow> error + unit"
  fs_readFile :: "'s \<Rightarrow> path \<Rightarrow> error + bytes"
  fs_writeFile :: "'s \<Rightarrow> path \<Rightarrow> bytes \<Rightarrow> error + 's"
  fs_delete :: "'s \<Rightarrow> path \<Rightarrow> bool \<Rightarrow> error + 's"
  fs_createDirectory :: "'s \<Rightarrow> path \<Rightarrow> error + 's"
  path_dirname :: "path \<Rightarrow> path"
  path_join :: "path \<Rightarrow> path \<Rightarrow> path"
  buffer_from_utf8 :: "string \<Rightarrow> bytes"

section \<open>HistoryManager\<close>

text \<open>
  The three classes implementing \<open>FileOperation\<close>, with their constructor arguments
  (\<open>_filePath\<close>, \<open>_previousContent\<close>).
\<close>

datatype FileOperation =
    FileCreateOperation path
  | FileUpdateOperation path bytes
  | FileDeleteOperation path bytes

text \<open>
  \<open>_maxHistorySize\<close> is a private field initialised to 100 and never assigned again;
  \<open>_operations\<close> is the state of the manager.
\<close>

definition maxHistorySize :: nat where
  "maxHistorySize = 100"

text \<open>\<open>recordOperation\<close>: \<open>push\<close>, then \<open>shift\<close> when the array is longer than the limit.\<close>

definition recordOperation :: "FileOperation list \<Rightarrow> FileOperation \<Rightarrow> FileOperation list" where
  "recordOperation operations operation =
     (let pushed = operations @ [operation]
      in if length pushed > maxHistorySize then tl pushed else pushed)"

text \<open>
  The \<open>undo\<close> method of each operation class: one call of the file API, whose failure is
  rethrown with a prefixed message.
\<close>

fun operation_undo :: "'s host \<Rightarrow> 's \<Rightarrow> FileOperation \<Rightarrow> error + 's" where
  "operation_undo h s (FileCreateOperation filePath) =
     (case fs_delete h s filePath True of
        Inl e \<Rightarrow> Inl (Error (''Failed to undo file creation: '' @ message e))
      | Inr s' \<Rightarrow> Inr s')"
| "operation_undo h s (FileUpdateOperation filePath previousContent) =
     (case fs_writeFile h s filePath previousContent of
        Inl e \<Rightarrow> Inl (Error (''Failed to undo file update: '' @ message e))
      | Inr s' \<Rightarrow> Inr s')"
| "operation_undo h s (FileDeleteOperation filePath previousContent) =
     (case fs_writeFile h s filePath previousContent of
        Inl e \<Rightarrow> Inl (Error (''Failed to undo file deletion: '' @ message e))
      | Inr s' \<Rightarrow> Inr s')"

text \<open>
  \<open>HistoryManager.undo\<close>: on an empty array it only shows a message; otherwise it pops
  the last operation, runs its \<open>undo\<close> and shows the outcome. It returns nothing and
  never throws; the result here is the storage, the array and the message shown.
\<close>

definition undo ::
  "'s host \<Rightarrow> 's \<times> FileOperation list \<Rightarrow> ('s \<times> FileOperation list) \<times> notification" where
  "undo h st =
     (case st of (s, operations) \<Rightarrow>
        if length operations = 0
        then ((s, operations), ShowInformationMessage ''Nothing to undo'')
        else
          (let lastOperation = last operations; popped = butlast operations
           in case operation_undo h s lastOperation of
                Inr s' \<Rightarrow> ((s', popped), ShowInformationMessage ''Operation undone successfully'')
              | Inl e \<Rightarrow>
                  ((s, popped), ShowErrorMessage (''Failed to undo operation: '' @ message e))))"

section \<open>FileSystemService\<close>

text \<open>
  Each method takes the storage and the history and returns both with its outcome, so
  that what a failing call has already done stays visible.
\<close>

definition fileExists :: "'s host \<Rightarrow> 's \<Rightarrow> path \<Rightarrow> bool" where
  "fileExists h s filePath = (case fs_stat h s filePath of Inr _ \<Rightarrow> True | Inl _ \<Rightarrow> False)"

definition ensureDirectory :: "'s host \<Rightarrow> 's \<Rightarrow> path \<Rightarrow> error + 's" where
  "ensureDirectory h s dirPath =
     (case fs_stat h s dirPath of
        Inr _ \<Rightarrow> Inr s
      | Inl _ \<Rightarrow>
          (case fs_createDirectory h s dirPath of
             Inl e \<Rightarrow> Inl (Error (''Failed to create directory: '' @ message e))
           | Inr s' \<Rightarrow> Inr s'))"

definition createFile ::
  "'s host \<Rightarrow> 's \<times> FileOperation list \<Rightarrow> path \<Rightarrow> string
     \<Rightarrow> ('s \<times> FileOperation list) \<times> (error + unit)" where
  "createFile h st filePath content =
     (case st of (s, operations) \<Rightarrow>
        (case ensureDirectory h s (path_dirname h filePath) of
           Inl e \<Rightarrow> ((s, operations), Inl (Error (''Failed to create file: '' @ message e)))
         | Inr s1 \<Rightarrow>
             if fileExists h s1 filePath
             then ((s1, operations),
                   Inl (Error (''Failed to create file: '' @ (''File already exists: '' @ filePath))))
             else
               (case fs_writeFile h s1 filePath (buffer_from_utf8 h content) of
                  Inl e \<Rightarrow>
                    ((s1, operations), Inl (Error (''Failed to create file: '' @ message e)))
                | Inr s2 \<Rightarrow>
                    ((s2, recordOperation operations (FileCreateOperation filePath)), Inr ()))))"

definition updateFile ::
  "'s host \<Rightarrow> 's \<times> FileOperation list \<Rightarrow> path \<Rightarrow> string
     \<Rightarrow> ('s \<times> FileOperation list) \<times> (error + unit)" where
  "updateFile h st filePath content =
     (case st of (s, operations) \<Rightarrow>
        if \<not> fileExists h s filePath
        then ((s, operations),
              Inl (Error (''Failed to update file: '' @ (''File does not exist: '' @ filePath))))
        else
          (case fs_readFile h s filePath of
             Inl e \<Rightarrow> ((s, operations), Inl (Error (''Failed to update file: '' @ message e)))
           | Inr existingContent \<Rightarrow>
               (case fs_writeFile h s filePath (buffer_from_utf8 h content) of
                  Inl e \<Rightarrow>
                    ((s, operations), Inl (Error (''Failed to update file: '' @ message e)))
                | Inr s1 \<Rightarrow>
                    ((s1, recordOperation operations
                            (FileUpdateOperation filePath existingContent)), Inr ()))))"

definition deleteFile ::
  "'s host \<Rightarrow> 's \<times> FileOperation list \<Rightarrow> path
     \<Rightarrow> ('s \<times> FileOperation list) \<times> (error + unit)" where
  "deleteFile h st filePath =
     (case st of (s, operations) \<Rightarrow>
        if \<not> fileExists h s filePath
        then ((s, operations),
              Inl (Error (''Failed to delete file: '' @ (''File does not exist: '' @ filePath))))
        else
          (case fs_readFile h s filePath of
             Inl e \<Rightarrow> ((s, operations), Inl (Error (''Failed to delete file: '' @ message e)))
           | Inr existingContent \<Rightarrow>
               (case fs_delete h s filePath False of
                  Inl e \<Rightarrow>
                    ((s, operations), Inl (Error (''Failed to delete file: '' @ message e)))
                | Inr s1 \<Rightarrow>
                    ((s1, recordOperation operations
                            (FileDeleteOperation filePath existingContent)), Inr ()))))"

section \<open>AICodeGeneratorService\<close>

subsection \<open>Strings and the regular expressions of the service\<close>

definition nl :: string where
  "nl = [CHR 0x0A]"

definition dq :: string where
  "dq = [CHR 0x22]"

text \<open>\<open>\w\<close>: an ASCII letter, a digit or the underscore.\<close>

definition isWordChar :: "char \<Rightarrow> bool" where
  "isWordChar c =
     (let n = (of_char c :: nat)
      in (48 \<le> n \<and> n \<le> 57) \<or> (65 \<le> n \<and> n \<le> 90) \<or> n = 95 \<or> (97 \<le> n \<and> n \<le> 122))"

text \<open>
  The white space and line terminators that \<open>String.prototype.trim\<close> removes, among the
  code units below U+0100: tab, line feed, vertical tab, form feed, carriage return, space
  and the no-break space.
\<close>

definition isWhiteSpace :: "char \<Rightarrow> bool" where
  "isWhiteSpace c = ((of_char c :: nat) \<in> {9, 10, 11, 12, 13, 32, 160})"

definition trim :: "string \<Rightarrow> string" where
  "trim s = rev (dropWhile isWhiteSpace (rev (dropWhile isWhiteSpace s)))"

text \<open>
  The text before and after the first occurrence of \<open>needle\<close>. A lazy \<open>[\s\S]*?\<close> followed
  by a literal stops at the first occurrence of that literal.
\<close>

fun split_at_first :: "string \<Rightarrow> string \<Rightarrow> (string \<times> string) option" where
  "split_at_first needle [] = (if needle = [] then Some ([], []) else None)"
| "split_at_first needle (c # cs) =
     (if prefix needle (c # cs) then Some ([], drop (length needle) (c # cs))
      else map_option (\<lambda>(before, after). (c # before, after)) (split_at_first needle cs))"

text \<open>
  Capture group 1 of \<open>/\[([\s\S]*?)\]/\<close>: the text between the first \<open>[\<close> and the first
  \<open>]\<close> after it; no match when there is no such pair.
\<close>

definition match_brackets :: "string \<Rightarrow> string option" where
  "match_brackets s =
     (case split_at_first ''['' s of
        None \<Rightarrow> None
      | Some (before, rest) \<Rightarrow>
          (case split_at_first '']'' rest of
             None \<Rightarrow> None
           | Some (captured, after) \<Rightarrow> Some captured))"

text \<open>
  Capture group 1 of \<open>/```(?:\w+)?\n([\s\S]*?)\n```/\<close>. \<open>fence_at\<close> matches at the start
  of its argument: three backticks, the word characters after them, a line feed, then the
  text up to the first line feed followed by three backticks. \<open>match_code_fence\<close> tries
  every start position from the left, as the regular expression search does.
\<close>

definition fence_at :: "string \<Rightarrow> string option" where
  "fence_at s =
     (if prefix ''```'' s
      then (case dropWhile isWordChar (drop 3 s) of
              [] \<Rightarrow> None
            | c # body \<Rightarrow>
                if c = CHR 0x0A
                then map_option fst (split_at_first (nl @ ''```'') body)
                else None)
      else None)"

fun match_code_fence :: "string \<Rightarrow> string option" where
  "match_code_fence [] = None"
| "match_code_fence (c # cs) =
     (case fence_at (c # cs) of
        Some captured \<Rightarrow> Some captured
      | None \<Rightarrow> match_code_fence cs)"

text \<open>
  Capture group 1 of \<open>/```json\n([\s\S]*?)\n```/\<close> (with \<open>opening = ''```json''\<close>) and of
  \<open>/```\n([\s\S]*?)\n```/\<close> (with \<open>opening = ''```''\<close>).
\<close>

definition match_fence_after :: "string \<Rightarrow> string \<Rightarrow> string option" where
  "match_fence_after opening s =
     (case split_at_first (opening @ nl) s of
        None \<Rightarrow> None
      | Some (before, body) \<Rightarrow> map_option fst (split_at_first (nl @ ''```'') body))"

text \<open>
  \<open>codeMatch[1] ? codeMatch[1].trim() : fileContent.trim()\<close>, where \<open>codeMatch\<close> is the
  match or \<open>[null, fileContent]\<close>: an empty capture is falsy.
\<close>

definition cleanedContent :: "string \<Rightarrow> string" where
  "cleanedContent fileContent =
     (let codeMatch1 = (case match_code_fence fileContent of
                          Some captured \<Rightarrow> captured
                        | None \<Rightarrow> fileContent)
      in if codeMatch1 \<noteq> [] then trim codeMatch1 else trim fileContent)"

definition jsonContent :: "string \<Rightarrow> string" where
  "jsonContent responseContent =
     (let jsonMatch1 =
            (case match_fence_after ''```json'' responseContent of
               Some captured \<Rightarrow> captured
             | None \<Rightarrow>
                 (case match_fence_after ''```'' responseContent of
                    Some captured \<Rightarrow> captured
                  | None \<Rightarrow> responseContent))
      in if jsonMatch1 \<noteq> [] then trim jsonMatch1 else trim responseContent)"

text \<open>\<open>Array.prototype.join(', ')\<close> on strings.\<close>

fun join_comma :: "string list \<Rightarrow> string" where
  "join_comma [] = []"
| "join_comma [x] = x"
| "join_comma (x # y # ys) = x @ '', '' @ join_comma (y # ys)"

subsection \<open>Types of the service\<close>

text \<open>
  What \<open>_getFrameworkDetails\<close> returns is read by property access: a field holds the
  value of the property, or \<open>None\<close> where the property is \<open>undefined\<close>.
\<close>

record FrameworkInfo =
  fw_name :: "string option"
  fw_language :: "string option"
  fw_type :: "string option"
  fw_dependencies :: "string list option"

text \<open>A string or \<open>undefined\<close> inside a template literal.\<close>

definition template :: "string option \<Rightarrow> string" where
  "template v = (case v of None \<Rightarrow> ''undefined'' | Some text \<Rightarrow> text)"

text \<open>An entry of \<open>ProjectStructure.files\<close>: \<open>{path, content}\<close>.\<close>

record project_file =
  file_path :: string
  file_content :: string

record ProjectStructure =
  files :: "project_file list"

text \<open>
  An entry of \<open>UpdatePlan.files\<close>: \<open>{path, action, content?}\<close>. The plan is what
  \<open>JSON.parse\<close> returned, unchecked, so the action is a string and the content may be
  missing.
\<close>

record update_file =
  update_path :: string
  update_action :: string
  update_content :: "string option"

record UpdatePlan =
  plan_files :: "update_file list"

record GenerationResult =
  result_message :: string
  result_files :: "string list"

text \<open>The argument of \<open>chat.completions.create\<close>, with one user message.\<close>

record request =
  req_model :: string
  req_content :: string
  req_temperature :: rat
  req_max_tokens :: nat

text \<open>
  What the service reaches outside the repository: the OpenAI client (\<open>None\<close> when no API
  key is configured), the settings \<open>model\<close> and \<open>maxTokens\<close>, and \<open>JSON.parse\<close> at the two
  types it is used at. The completion service answers as it likes, so it is a function
  of its own state \<open>'a\<close>, threaded through the calls: it throws (\<open>Inl\<close>) or returns
  \<open>choices[0].message.content\<close>, which may be \<open>null\<close>. \<open>JSON.parse\<close> returns \<open>None\<close> where
  it throws. \<open>join_of_undefined\<close> is the message of the \<open>TypeError\<close> that the JavaScript
  engine throws when the property \<open>join\<close> is read from \<open>undefined\<close>; its wording depends
  on the version of the engine.
\<close>

record 'a service =
  openai :: "('a \<Rightarrow> request \<Rightarrow> (error + string option) \<times> 'a) option"
  config_model :: "string option"
  config_maxTokens :: "nat option"
  json_parse_paths :: "string \<Rightarrow> string list option"
  json_parse_structure :: "string \<Rightarrow> ProjectStructure option"
  join_of_undefined :: string

subsection \<open>Framework details\<close>

text \<open>
  \<open>_getFrameworkDetails\<close> evaluates \<open>frameworks[framework] || {...}\<close>. The property
  lookup finds the own keys of the table first, then the properties that an object
  literal inherits from \<open>Object.prototype\<close>; every value found is truthy, so the default
  is returned only for an id that is neither.
\<close>

definition frameworks :: "(string \<times> FrameworkInfo) list" where
  "frameworks =
    [(''react'', \<lparr> fw_name = Some ''React'', fw_language = Some ''JavaScript/TypeScript'',
       fw_type = Some ''frontend'',
       fw_dependencies = Some [''react'', ''react-dom'', ''react-scripts''] \<rparr>),
     (''vue'', \<lparr> fw_name = Some ''Vue.js'', fw_language = Some ''JavaScript/TypeScript'',
       fw_type = Some ''frontend'',
       fw_dependencies = Some [''vue'', ''vue-router'', ''vuex''] \<rparr>),
     (''angular'', \<lparr> fw_name = Some ''Angular'', fw_language = Some ''TypeScript'',
       fw_type = Some ''frontend'',
       fw_dependencies = Some [''@angular/core'', ''@angular/common'', ''@angular/router''] \<rparr>),
     (''express'', \<lparr> fw_name = Some ''Express.js'', fw_language = Some ''JavaScript/TypeScript'',
       fw_type = Some ''backend'',
       fw_dependencies = Some [''express'', ''body-parser'', ''mongoose''] \<rparr>),
     (''next'', \<lparr> fw_name = Some ''Next.js'', fw_language = Some ''JavaScript/TypeScript'',
       fw_type = Some ''fullstack'',
       fw_dependencies = Some [''next'', ''react'', ''react-dom''] \<rparr>),
     (''fastapi'', \<lparr> fw_name = Some ''FastAPI'', fw_language = Some ''Python'',
       fw_type = Some ''backend'',
       fw_dependencies = Some [''fastapi'', ''uvicorn'', ''pydantic''] \<rparr>),
     (''django'', \<lparr> fw_name = Some ''Django'', fw_language = Some ''Python'',
       fw_type = Some ''fullstack'',
       fw_dependencies = Some [''django'', ''djangorestframework'', ''django-cors-headers''] \<rparr>),
     (''flask'', \<lparr> fw_name = Some ''Flask'', fw_language = Some ''Python'',
       fw_type = Some ''backend'',
       fw_dependencies = Some [''flask'', ''flask-sqlalchemy'', ''flask-migrate''] \<rparr>),
     (''spring'', \<lparr> fw_name = Some ''Spring Boot'', fw_language = Some ''Java'',
       fw_type = Some ''backend'',
       fw_dependencies = Some [''spring-boot-starter-web'', ''spring-boot-starter-data-jpa'', ''spring-boot-starter-security''] \<rparr>),
     (''android'', \<lparr> fw_name = Some ''Android App'', fw_language = Some ''Java/Kotlin'',
       fw_type = Some ''mobile'',
       fw_dependencies = Some [''androidx.core:core-ktx'', ''androidx.appcompat:appcompat'', ''com.google.android.material:material''] \<rparr>),
     (''aspnet'', \<lparr> fw_name = Some ''ASP.NET Core'', fw_language = Some ''C#'',
       fw_type = Some ''backend'',
       fw_dependencies = Some [''Microsoft.AspNetCore.App'', ''Microsoft.EntityFrameworkCore'', ''Newtonsoft.Json''] \<rparr>),
     (''wpf'', \<lparr> fw_name = Some ''WPF Desktop App'', fw_language = Some ''C#'',
       fw_type = Some ''desktop'',
       fw_dependencies = Some [''Microsoft.Extensions.DependencyInjection'', ''MaterialDesignThemes''] \<rparr>),
     (''golang-web'', \<lparr> fw_name = Some ''Go Web Server'', fw_language = Some ''Go'',
       fw_type = Some ''backend'',
       fw_dependencies = Some [''github.com/gin-gonic/gin'', ''github.com/go-sql-driver/mysql'', ''github.com/golang-jwt/jwt''] \<rparr>),
     (''golang-cli'', \<lparr> fw_name = Some ''Go CLI Application'', fw_language = Some ''Go'',
       fw_type = Some ''cli'',
       fw_dependencies = Some [''github.com/spf13/cobra'', ''github.com/spf13/viper'', ''github.com/sirupsen/logrus''] \<rparr>),
     (''rails'', \<lparr> fw_name = Some ''Ruby on Rails'', fw_language = Some ''Ruby'',
       fw_type = Some ''fullstack'',
       fw_dependencies = Some [''rails'', ''pg'', ''devise''] \<rparr>),
     (''laravel'', \<lparr> fw_name = Some ''Laravel'', fw_language = Some ''PHP'',
       fw_type = Some ''fullstack'',
       fw_dependencies = Some [''laravel/framework'', ''laravel/sanctum'', ''laravel/tinker''] \<rparr>),
     (''rust-web'', \<lparr> fw_name = Some ''Rust Web Service'', fw_language = Some ''Rust'',
       fw_type = Some ''backend'',
       fw_dependencies = Some [''actix-web'', ''tokio'', ''serde''] \<rparr>),
     (''rust-cli'', \<lparr> fw_name = Some ''Rust CLI Tool'', fw_language = Some ''Rust'',
       fw_type = Some ''cli'',
       fw_dependencies = Some [''clap'', ''serde'', ''tokio''] \<rparr>)]"

text \<open>
  The properties of \<open>Object.prototype\<close>, each with the \<open>name\<close> of its value: the
  constructor is the function \<open>Object\<close>, \<open>__proto__\<close> reads as the prototype object,
  which has no \<open>name\<close>, and the others are functions named like their key. None of
  these values has a property \<open>language\<close>, \<open>type\<close> or \<open>dependencies\<close>.
\<close>

definition object_prototype :: "(string \<times> string option) list" where
  "object_prototype =
    [(''constructor'', Some ''Object''),
     (''__defineGetter__'', Some ''__defineGetter__''),
     (''__defineSetter__'', Some ''__defineSetter__''),
     (''hasOwnProperty'', Some ''hasOwnProperty''),
     (''__lookupGetter__'', Some ''__lookupGetter__''),
     (''__lookupSetter__'', Some ''__lookupSetter__''),
     (''isPrototypeOf'', Some ''isPrototypeOf''),
     (''propertyIsEnumerable'', Some ''propertyIsEnumerable''),
     (''toString'', Some ''toString''),
     (''valueOf'', Some ''valueOf''),
     (''__proto__'', None),
     (''toLocaleString'', Some ''toLocaleString'')]"

definition getFrameworkDetails :: "string \<Rightarrow> FrameworkInfo" where
  "getFrameworkDetails framework =
     (case map_of frameworks framework of
        Some details \<Rightarrow> details
      | None \<Rightarrow>
          (case map_of object_prototype framework of
             Some inherited_name \<Rightarrow>
               \<lparr> fw_name = inherited_name, fw_language = None, fw_type = None,
                 fw_dependencies = None \<rparr>
           | None \<Rightarrow>
               \<lparr> fw_name = Some framework, fw_language = Some ''Unknown'',
                 fw_type = Some ''unknown'', fw_dependencies = Some [] \<rparr>))"

subsection \<open>Calls of the completion service\<close>

text \<open>\<open>config.get('model') || 'gpt-4'\<close> and \<open>config.get('maxTokens') || 4096\<close>.\<close>

definition configured_model :: "'a service \<Rightarrow> string" where
  "configured_model svc =
     (case config_model svc of None \<Rightarrow> ''gpt-4'' | Some m \<Rightarrow> if m = [] then ''gpt-4'' else m)"

definition configured_maxTokens :: "'a service \<Rightarrow> nat" where
  "configured_maxTokens svc =
     (case config_maxTokens svc of None \<Rightarrow> 4096 | Some n \<Rightarrow> if n = 0 then 4096 else n)"

definition completion_request :: "'a service \<Rightarrow> string \<Rightarrow> nat \<Rightarrow> request" where
  "completion_request svc prompt maxTokens =
     \<lparr> req_model = (if configured_model svc = ''gpt-4'' then ''gpt-4'' else ''gpt-3.5-turbo''),
       req_content = prompt, req_temperature = 7 / 10, req_max_tokens = maxTokens \<rparr>"

text \<open>
  \<open>_callAI\<close>: the content of the completion (\<open>''\<close> for \<open>null\<close>), or an error whose message is
  prefixed, also when the client is missing.
\<close>

definition callAI :: "'a service \<Rightarrow> 'a \<Rightarrow> string \<Rightarrow> nat \<Rightarrow> (error + string) \<times> 'a" where
  "callAI svc a prompt maxTokens =
     (case openai svc of
        Some create \<Rightarrow>
          (case create a (completion_request svc prompt maxTokens) of
             (Inr content, a') \<Rightarrow> (Inr (case content of None \<Rightarrow> [] | Some c \<Rightarrow> c), a')
           | (Inl e, a') \<Rightarrow> (Inl (Error (''Error calling AI API: '' @ message e)), a'))
      | None \<Rightarrow>
          (Inl (Error (''Error calling AI API: '' @ ''OpenAI client not initialized'')), a))"

subsection \<open>The chunked approach: \<open>_generateLargerProject\<close>\<close>

definition structurePrompt :: "string \<Rightarrow> string \<Rightarrow> string" where
  "structurePrompt description framework =
      nl @
      ''        Based on this description: '' @ dq @ description @ dq @ nl @
      ''        '' @ nl @
      ''        Generate a structure for a '' @ framework @ '' application.'' @ nl @
      ''        Return ONLY a JSON array of file paths that would be included in this '' @
      ''project.'' @ nl @
      ''        Example: ['' @ dq @ ''package.json'' @ dq @ '', '' @ dq @ ''src/index.js'' @
      dq @ '', '' @ dq @ ''src/components/App.js'' @ dq @ '']'' @ nl @
      ''        '' @ nl @
      ''        Do not include file content, just the paths.'' @ nl @
      ''        ''"

definition filePrompt :: "string \<Rightarrow> FrameworkInfo \<Rightarrow> string \<Rightarrow> string" where
  "filePrompt filePath frameworkDetails description =
      nl @
      ''            Generate code for a '' @ filePath @ '' file in a '' @
      template (fw_name frameworkDetails) @ '' project.'' @ nl @
      ''            '' @ nl @
      ''            Project description: '' @ description @ nl @
      ''            '' @ nl @
      ''            I need the complete content for this specific file. Focus only on this '' @
      ''file.'' @ nl @
      ''            Context: This is part of a '' @ template (fw_name frameworkDetails) @ '' application '' @
      ''written in '' @ template (fw_language frameworkDetails) @ ''.'' @ nl @
      ''            ''"

text \<open>
  The \<open>try\<close> block around the structure response. \<open>filePaths\<close> starts as \<open>[]\<close> and is
  assigned only inside \<open>if (pathMatch)\<close>; the \<open>catch\<close> is reached when \<open>JSON.parse\<close> throws.
\<close>

definition parseStructure :: "'a service \<Rightarrow> string \<Rightarrow> error + string list" where
  "parseStructure svc structureResponse =
     (case match_brackets structureResponse of
        Some pathMatch1 \<Rightarrow>
          (case json_parse_paths svc (''['' @ pathMatch1 @ '']'') of
             Some filePaths \<Rightarrow> Inr filePaths
           | None \<Rightarrow> Inl (Error ''Failed to generate project structure''))
      | None \<Rightarrow> Inr [])"

text \<open>
  The loop over \<open>filePaths\<close>, with the array \<open>files\<close> built so far as \<open>generated\<close>: one call
  per path; a call that throws still pushes an entry, whose content names the error.
\<close>

fun generateFiles ::
  "'a service \<Rightarrow> 'a \<Rightarrow> string \<Rightarrow> FrameworkInfo \<Rightarrow> string list \<Rightarrow> project_file list
     \<Rightarrow> project_file list \<times> 'a" where
  "generateFiles svc a description frameworkDetails [] generated = (generated, a)"
| "generateFiles svc a description frameworkDetails (filePath # rest) generated =
     (case callAI svc a (filePrompt filePath frameworkDetails description) 2048 of
        (Inr fileContent, a') \<Rightarrow>
          generateFiles svc a' description frameworkDetails rest
            (generated @ [\<lparr> file_path = filePath, file_content = cleanedContent fileContent \<rparr>])
      | (Inl e, a') \<Rightarrow>
          generateFiles svc a' description frameworkDetails rest
            (generated @
             [\<lparr> file_path = filePath,
                file_content = ''// Failed to generate content for this file: '' @
                               error_toString e \<rparr>]))"

definition generateLargerProject ::
  "'a service \<Rightarrow> 'a \<Rightarrow> string \<Rightarrow> string \<Rightarrow> (error + ProjectStructure) \<times> 'a" where
  "generateLargerProject svc a description framework =
     (case callAI svc a (structurePrompt description framework) 2048 of
        (Inl e, a1) \<Rightarrow> (Inl e, a1)
      | (Inr structureResponse, a1) \<Rightarrow>
          (case parseStructure svc structureResponse of
             Inl e \<Rightarrow> (Inl e, a1)
           | Inr filePaths \<Rightarrow>
               (case generateFiles svc a1 description (getFrameworkDetails framework)
                       filePaths [] of
                  (generated, a2) \<Rightarrow> (Inr \<lparr> files = generated \<rparr>, a2))))"

subsection \<open>\<open>_generateProjectStructure\<close>\<close>

text \<open>
  \<open>description.length / 4 + 1000\<close> is a quotient of JavaScript numbers; for a length, the
  quotient by 4 and the sum are exact, so the estimate is this real number.
\<close>

definition estimatedTokens :: "string \<Rightarrow> real" where
  "estimatedTokens description = real (length description) / 4 + 1000"

datatype strategy = Chunked | Flat

text \<open>The test of the \<open>if\<close>: the chunked approach when the estimate is greater than 2000.\<close>

definition selectStrategy :: "string \<Rightarrow> strategy" where
  "selectStrategy description = (if estimatedTokens description > 2000 then Chunked else Flat)"

text \<open>
  The prompt of the flat approach, once \<open>frameworkDetails.dependencies\<close> has been read
  as the array \<open>dependencies\<close>.
\<close>

definition flatPrompt :: "string \<Rightarrow> FrameworkInfo \<Rightarrow> string list \<Rightarrow> string" where
  "flatPrompt description frameworkDetails dependencies =
      nl @
      ''            Generate a complete '' @ template (fw_name frameworkDetails) @ '' application based on '' @
      ''the following description:'' @ nl @
      ''            '' @ nl @
      ''            '' @ description @ nl @
      ''            '' @ nl @
      ''            Create a full project structure with all necessary files. For each file, '' @
      ''include the relative file path and the complete content.'' @ nl @
      ''            '' @ nl @
      ''            Programming language: '' @ template (fw_language frameworkDetails) @ nl @
      ''            Framework: '' @ template (fw_name frameworkDetails) @ nl @
      ''            Type: '' @ template (fw_type frameworkDetails) @ nl @
      ''            Key dependencies: '' @ join_comma dependencies @ nl @
      ''            '' @ nl @
      ''            Respond with a valid JSON object that matches this structure:'' @ nl @
      ''            {'' @ nl @
      ''                '' @ dq @ ''files'' @ dq @ '': ['' @ nl @
      ''                    {'' @ nl @
      ''                        '' @ dq @ ''path'' @ dq @ '': '' @ dq @
      ''relative/path/to/file.ext'' @ dq @ '','' @ nl @
      ''                        '' @ dq @ ''content'' @ dq @ '': '' @ dq @ ''complete file '' @
      ''content'' @ dq @ nl @
      ''                    }'' @ nl @
      ''                    // more files...'' @ nl @
      ''                ]'' @ nl @
      ''            }'' @ nl @
      ''            '' @ nl @
      ''            Include all necessary configurations, dependencies, and files to make the '' @
      ''project work. Focus on creating a functional, well-structured application following '' @
      ''best practices for '' @ template (fw_name frameworkDetails) @ '' development.'' @ nl @
      ''            ''"

text \<open>
  The \<open>else\<close> branch. The prompt is built before the \<open>try\<close>: where
  \<open>frameworkDetails.dependencies\<close> is \<open>undefined\<close>, reading \<open>join\<close> throws the engine's
  \<open>TypeError\<close>, which leaves the method as it is. Then one completion, whose content is
  parsed as the whole structure; every error raised inside the outer \<open>try\<close> is rethrown
  with the prefix of the outer \<open>catch\<close>.
\<close>

definition generateFlatProject ::
  "'a service \<Rightarrow> 'a \<Rightarrow> string \<Rightarrow> string \<Rightarrow> (error + ProjectStructure) \<times> 'a" where
  "generateFlatProject svc a description framework =
     (case fw_dependencies (getFrameworkDetails framework) of
        None \<Rightarrow> (Inl (Error (join_of_undefined svc)), a)
      | Some dependencies \<Rightarrow>
     (case openai svc of
        Some create \<Rightarrow>
          (case create a (completion_request svc
                            (flatPrompt description (getFrameworkDetails framework) dependencies)
                            (configured_maxTokens svc)) of
             (Inl e, a') \<Rightarrow> (Inl (Error (''Error calling AI API: '' @ message e)), a')
           | (Inr content, a') \<Rightarrow>
               (case content of
                  None \<Rightarrow>
                    (Inl (Error (''Error calling AI API: '' @
                       ''Failed to generate project structure. API not initialized.'')), a')
                | Some responseContent \<Rightarrow>
                    if responseContent = []
                    then (Inl (Error (''Error calling AI API: '' @
                            ''Failed to generate project structure. API not initialized.'')), a')
                    else
                      (case json_parse_structure svc (jsonContent responseContent) of
                         Some structure \<Rightarrow> (Inr structure, a')
                       | None \<Rightarrow>
                           (Inl (Error (''Error calling AI API: '' @
                              ''Failed to parse AI response. The response was not valid JSON.'')),
                            a'))))
      | None \<Rightarrow>
          (Inl (Error (''Error calling AI API: '' @
             ''Failed to generate project structure. API not initialized.'')), a)))"

definition generateProjectStructure ::
  "'a service \<Rightarrow> 'a \<Rightarrow> string \<Rightarrow> string \<Rightarrow> (error + ProjectStructure) \<times> 'a" where
  "generateProjectStructure svc a description framework =
     (case selectStrategy description of
        Chunked \<Rightarrow> generateLargerProject svc a description framework
      | Flat \<Rightarrow> generateFlatProject svc a description framework)"

subsection \<open>\<open>updateApplication\<close>\<close>

text \<open>The body of the loop over \<open>updatePlan.files\<close>: \<open>file.content || ''\<close> and the dispatch.\<close>

definition content_or_empty :: "string option \<Rightarrow> string" where
  "content_or_empty c = (case c of None \<Rightarrow> [] | Some text \<Rightarrow> text)"

definition applyUpdate ::
  "'s host \<Rightarrow> 's \<times> FileOperation list \<Rightarrow> path \<Rightarrow> update_file
     \<Rightarrow> ('s \<times> FileOperation list) \<times> (error + unit)" where
  "applyUpdate h st filePath file =
     (if update_action file = ''create''
      then createFile h st filePath (content_or_empty (update_content file))
      else if update_action file = ''update''
      then updateFile h st filePath (content_or_empty (update_content file))
      else if update_action file = ''delete''
      then deleteFile h st filePath
      else (st, Inr ()))"

text \<open>The loop: the first call that throws ends it; otherwise the path joins \<open>updatedFiles\<close>.\<close>

fun applyUpdates ::
  "'s host \<Rightarrow> 's \<times> FileOperation list \<Rightarrow> path \<Rightarrow> update_file list \<Rightarrow> path list
     \<Rightarrow> ('s \<times> FileOperation list) \<times> (error + path list)" where
  "applyUpdates h st projectPath [] updatedFiles = (st, Inr updatedFiles)"
| "applyUpdates h st projectPath (file # rest) updatedFiles =
     (case applyUpdate h st (path_join h projectPath (update_path file)) file of
        (st', Inl e) \<Rightarrow> (st', Inl e)
      | (st', Inr u) \<Rightarrow>
          applyUpdates h st' projectPath rest
            (updatedFiles @ [path_join h projectPath (update_path file)]))"

text \<open>A number in a template literal, for the lengths that occur: its decimal digits.\<close>

fun decimal :: "nat \<Rightarrow> string" where
  "decimal n =
     (if n < 10 then [char_of (48 + n)] else decimal (n div 10) @ [char_of (48 + n mod 10)])"

text \<open>
  \<open>updateApplication\<close>, from the update plan on. The project analysis and
  \<open>_generateUpdatePlan\<close> only read the storage and call the completion service; their
  outcome is the argument \<open>planned\<close>.
\<close>

definition updateApplication ::
  "'s host \<Rightarrow> 'a service \<Rightarrow> 's \<times> FileOperation list \<Rightarrow> path \<Rightarrow> error + UpdatePlan
     \<Rightarrow> ('s \<times> FileOperation list) \<times> (error + GenerationResult)" where
  "updateApplication h svc st projectPath planned =
     (case openai svc of
        None \<Rightarrow> (st, Inl (Error ''API key not configured''))
      | Some create \<Rightarrow>
          (case planned of
             Inl e \<Rightarrow> (st, Inl (Error (''Failed to update application: '' @ message e)))
           | Inr updatePlan \<Rightarrow>
               (case applyUpdates h st projectPath (plan_files updatePlan) [] of
                  (st', Inl e) \<Rightarrow>
                    (st', Inl (Error (''Failed to update application: '' @ message e)))
                | (st', Inr updatedFiles) \<Rightarrow>
                    (st', Inr \<lparr> result_message =
                                  ''Application updated successfully with '' @
                                  decimal (length updatedFiles) @ '' files modified'',
                                result_files = updatedFiles \<rparr>))))"

section \<open>An in-memory storage backend\<close>

text \<open>
  Modelled from the spec: the storage backend of section 6 (\<open>exists\<close>, \<open>read\<close>, \<open>write\<close>,
  \<open>delete\<close> with a \<open>recursive\<close> flag, \<open>mkdir\<close>), which the repository reaches through
  \<open>vscode.workspace.fs\<close>. It is one instance of \<^typ>\<open>'s host\<close>, used to run the services
  on concrete inputs: a table from paths to nodes, where a path names at most one node.
\<close>

datatype node = File bytes | Directory

type_synonym memfs = "(path \<times> node) list"

definition below_directory :: "path \<Rightarrow> path \<Rightarrow> bool" where
  "below_directory dirPath p = prefix (dirPath @ ''/'') p"

definition mem_stat :: "memfs \<Rightarrow> path \<Rightarrow> error + unit" where
  "mem_stat s p = (case map_of s p of None \<Rightarrow> Inl (Error ''FileNotFound'') | Some _ \<Rightarrow> Inr ())"

definition mem_readFile :: "memfs \<Rightarrow> path \<Rightarrow> error + bytes" where
  "mem_readFile s p =
     (case map_of s p of
        None \<Rightarrow> Inl (Error ''FileNotFound'')
      | Some Directory \<Rightarrow> Inl (Error ''FileIsADirectory'')
      | Some (File b) \<Rightarrow> Inr b)"

definition mem_writeFile :: "memfs \<Rightarrow> path \<Rightarrow> bytes \<Rightarrow> error + memfs" where
  "mem_writeFile s p b =
     (case map_of s p of
        Some Directory \<Rightarrow> Inl (Error ''FileIsADirectory'')
      | _ \<Rightarrow> Inr (AList.update p (File b) s))"

definition mem_delete :: "memfs \<Rightarrow> path \<Rightarrow> bool \<Rightarrow> error + memfs" where
  "mem_delete s p recursive =
     (case map_of s p of
        None \<Rightarrow> Inl (Error ''FileNotFound'')
      | Some _ \<Rightarrow>
          if \<not> recursive \<and> list_ex (\<lambda>(q, n). below_directory p q) s
          then Inl (Error ''NoPermissions'')
          else Inr (filter (\<lambda>(q, n). q \<noteq> p \<and> \<not> below_directory p q) s))"

definition mem_createDirectory :: "memfs \<Rightarrow> path \<Rightarrow> error + memfs" where
  "mem_createDirectory s p =
     (case map_of s p of
        None \<Rightarrow> Inr (AList.update p Directory s)
      | Some Directory \<Rightarrow> Inr s
      | Some (File b) \<Rightarrow> Inl (Error ''FileExists''))"

text \<open>
  A stand-in for \<open>path.dirname\<close>, which agrees with it on a path that does not end with
  a separator and has no doubled separator.
\<close>

definition mem_dirname :: "path \<Rightarrow> path" where
  "mem_dirname p =
     (if CHR ''/'' \<notin> set p then ''.''
      else (let d = rev (tl (dropWhile (\<lambda>c. c \<noteq> CHR ''/'') (rev p)))
            in if d = [] then ''/'' else d))"

text \<open>
  A stand-in for \<open>path.join\<close>, which agrees with it on two arguments that need no
  normalisation: no \<open>.\<close> or \<open>..\<close> segment, no doubled separator, the first one not ending
  and the second one not starting with a separator.
\<close>

definition mem_join :: "path \<Rightarrow> path \<Rightarrow> path" where
  "mem_join a b = (if a = [] then b else if b = [] then a else a @ ''/'' @ b)"

text \<open>UTF-8 of a code unit below U+0100: one byte below U+0080, two bytes otherwise.\<close>

definition utf8_unit :: "char \<Rightarrow> bytes" where
  "utf8_unit c =
     (let n = (of_char c :: nat)
      in if n < 128 then [of_nat n] else [of_nat (192 + n div 64), of_nat (128 + n mod 64)])"

definition utf8 :: "string \<Rightarrow> bytes" where
  "utf8 content = concat (map utf8_unit content)"

definition memhost :: "memfs host" where
  "memhost = \<lparr> fs_stat = mem_stat, fs_readFile = mem_readFile, fs_writeFile = mem_writeFile,
               fs_delete = mem_delete, fs_createDirectory = mem_createDirectory,
               path_dirname = mem_dirname, path_join = mem_join, buffer_from_utf8 = utf8 \<rparr>"

section \<open>Scripted collaborators for examples\<close>

text \<open>
  A completion service that answers from a script, whatever the prompt: its state is the
  list of outcomes still to give.
\<close>

definition scripted ::
  "(error + string option) list \<Rightarrow> request
     \<Rightarrow> (error + string option) \<times> (error + string option) list" where
  "scripted script req =
     (case script of
        [] \<Rightarrow> (Inl (Error ''Connection error.''), [])
      | outcome # rest \<Rightarrow> (outcome, rest))"

text \<open>
  A stand-in for \<open>JSON.parse\<close> on the texts of the examples. It parses an array of
  strings that contain no quote, backslash, comma or control character, with JSON white
  space (space, tab, line feed, carriage return) around the tokens, to the value that
  \<open>JSON.parse\<close> gives; it refuses every other text, so it is defined on fewer texts than
  \<open>JSON.parse\<close>.
\<close>

definition isJsonSpace :: "char \<Rightarrow> bool" where
  "isJsonSpace c = ((of_char c :: nat) \<in> {9, 10, 13, 32})"

definition json_trim :: "string \<Rightarrow> string" where
  "json_trim s = rev (dropWhile isJsonSpace (rev (dropWhile isJsonSpace s)))"

fun split_on :: "char \<Rightarrow> string \<Rightarrow> string list" where
  "split_on sep [] = [] # []"
| "split_on sep (c # cs) =
     (if c = sep then [] # split_on sep cs
      else (case split_on sep cs of [] \<Rightarrow> [c] # [] | x # xs \<Rightarrow> (c # x) # xs))"

definition unquote :: "string \<Rightarrow> string option" where
  "unquote s =
     (case json_trim s of
        [] \<Rightarrow> None
      | c # rest \<Rightarrow>
          if c = CHR 0x22 \<and> rest \<noteq> [] \<and> last rest = CHR 0x22 \<and>
             list_all (\<lambda>d. d \<noteq> CHR 0x22 \<and> d \<noteq> CHR 0x5C \<and> 32 \<le> (of_char d :: nat))
               (butlast rest)
          then Some (butlast rest) else None)"

definition parse_string_array :: "string \<Rightarrow> string list option" where
  "parse_string_array s =
     (case json_trim s of
        [] \<Rightarrow> None
      | c # rest \<Rightarrow>
          if c = CHR ''['' \<and> rest \<noteq> [] \<and> last rest = CHR '']''
          then (if json_trim (butlast rest) = [] then Some []
                else those (map unquote (split_on (CHR '','') (butlast rest))))
          else None)"

definition example_service :: "(error + string option) list service" where
  "example_service =
     \<lparr> openai = Some scripted, config_model = None, config_maxTokens = None,
       json_parse_paths = parse_string_array, json_parse_structure = (\<lambda>s. None),
       join_of_undefined =
         ''Cannot read properties of undefined (reading '' @ [CHR 0x27] @ ''join'' @
         [CHR 0x27] @ '')'' \<rparr>"

section \<open>Notions used in the statements\<close>

text \<open>What one \<open>undo\<close> call leaves and shows when the popped operation is \<open>operation\<close>.\<close>

definition storage_after_undo :: "'s host \<Rightarrow> 's \<Rightarrow> FileOperation \<Rightarrow> 's" where
  "storage_after_undo h s operation =
     (case operation_undo h s operation of Inr s' \<Rightarrow> s' | Inl e \<Rightarrow> s)"

definition message_after_undo :: "'s host \<Rightarrow> 's \<Rightarrow> FileOperation \<Rightarrow> notification" where
  "message_after_undo h s operation =
     (case operation_undo h s operation of
        Inr s' \<Rightarrow> ShowInformationMessage ''Operation undone successfully''
      | Inl e \<Rightarrow> ShowErrorMessage (''Failed to undo operation: '' @ message e))"

text \<open>
  Two laws of a storage backend: a file that was written reads back as the bytes written,
  and a path that was deleted recursively is no longer there.
\<close>

definition write_then_read :: "'s host \<Rightarrow> bool" where
  "write_then_read h \<longleftrightarrow>
     (\<forall>s p b s'. fs_writeFile h s p b = Inr s' \<longrightarrow> fs_readFile h s' p = Inr b)"

definition delete_then_stat :: "'s host \<Rightarrow> bool" where
  "delete_then_stat h \<longleftrightarrow>
     (\<forall>s p s'. fs_delete h s p True = Inr s' \<longrightarrow> fs_stat h s' p \<noteq> Inr ())"

text \<open>
  The outcomes of the content calls for a list of paths, in the order of the calls, and
  the plan entry that the specification asks for a path and the outcome of its call.
\<close>

fun contentResponses ::
  "'a service \<Rightarrow> 'a \<Rightarrow> string \<Rightarrow> FrameworkInfo \<Rightarrow> string list \<Rightarrow> (error + string) list" where
  "contentResponses svc a description frameworkDetails [] = []"
| "contentResponses svc a description frameworkDetails (filePath # rest) =
     (case callAI svc a (filePrompt filePath frameworkDetails description) 2048 of
        (outcome, a') \<Rightarrow> outcome # contentResponses svc a' description frameworkDetails rest)"

definition planEntry :: "string \<Rightarrow> error + string \<Rightarrow> project_file" where
  "planEntry filePath outcome =
     (case outcome of
        Inr fileContent \<Rightarrow> \<lparr> file_path = filePath, file_content = cleanedContent fileContent \<rparr>
      | Inl e \<Rightarrow>
          \<lparr> file_path = filePath,
            file_content = ''// Failed to generate content for this file: Error: '' @ message e \<rparr>)"

section \<open>The operation log\<close>

lemma recordOperation_bounded:
  assumes "length operations \<le> maxHistorySize"
  shows "recordOperation operations operation =
     drop (Suc (length operations) - maxHistorySize) (operations @ [operation])"
proof (cases "length operations < maxHistorySize")
  case True
  then show ?thesis by (simp add: recordOperation_def Let_def)
next
  case False
  with assms have full: "length operations = maxHistorySize" by simp
  then have one: "Suc (length operations) - maxHistorySize = Suc 0" by simp
  have "recordOperation operations operation = tl (operations @ [operation])"
    using full by (simp add: recordOperation_def Let_def)
  also have "\<dots> = drop (Suc 0) (operations @ [operation])"
    by (simp only: drop_Suc drop_0)
  finally show ?thesis using one by simp
qed

lemma foldl_recordOperation:
  "foldl recordOperation [] ops = drop (length ops - maxHistorySize) ops"
proof (induction ops rule: rev_induct)
  case Nil
  show ?case by simp
next
  case (snoc x xs)
  let ?kept = "drop (length xs - maxHistorySize) xs"
  have len: "length ?kept \<le> maxHistorySize" by simp
  have "foldl recordOperation [] (xs @ [x]) = recordOperation ?kept x"
    using snoc by simp
  also have "\<dots> = drop (Suc (length ?kept) - maxHistorySize) (?kept @ [x])"
    by (rule recordOperation_bounded [OF len])
  also have "\<dots> = drop (length (xs @ [x]) - maxHistorySize) (xs @ [x])"
  proof (cases "length xs < maxHistorySize")
    case True
    then show ?thesis by simp
  next
    case False
    then have "Suc (length ?kept) - maxHistorySize = Suc 0"
      and "length (xs @ [x]) - maxHistorySize = Suc (length xs - maxHistorySize)"
      and "length xs - maxHistorySize \<le> length xs"
      by simp_all
    then show ?thesis by (simp add: drop_Suc tl_drop)
  qed
  finally show ?case .
qed

text \<open>
  Claim C3. After any sequence of \<open>recordOperation\<close> calls on a new manager the log holds
  at most 100 operations, and it holds the most recently recorded ones in the order they
  were recorded: all of them while there are at most 100, the last 100 otherwise. One
  more \<open>recordOperation\<close> appends at the tail, and when the log is full it drops exactly
  the oldest operation, at the head.
\<close>

theorem log_keeps_most_recent:
  "length (foldl recordOperation [] ops) \<le> 100 \<and>
   foldl recordOperation [] ops = drop (length ops - 100) ops \<and>
   recordOperation (foldl recordOperation [] ops) operation =
     (if length (foldl recordOperation [] ops) < 100
      then foldl recordOperation [] ops @ [operation]
      else tl (foldl recordOperation [] ops) @ [operation])"
proof -
  let ?log = "foldl recordOperation [] ops"
  have eq: "?log = drop (length ops - 100) ops"
    using foldl_recordOperation [of ops] by (simp add: maxHistorySize_def)
  have len: "length ?log \<le> 100" by (subst eq) simp
  have step: "recordOperation ?log operation =
     (if length ?log < 100 then ?log @ [operation] else tl ?log @ [operation])"
    using len by (cases ?log) (auto simp: recordOperation_def Let_def maxHistorySize_def)
  show ?thesis using eq len step by blast
qed

section \<open>Undo\<close>

lemma recordOperation_snoc:
  "length ys < maxHistorySize \<Longrightarrow>
   \<exists>keep. recordOperation (keep0 @ ys) operation = keep @ ys @ [operation]"
  by (cases keep0) (auto simp: recordOperation_def Let_def)

lemma undo_snoc:
  "undo h (s, keep @ [operation]) =
     ((storage_after_undo h s operation, keep), message_after_undo h s operation)"
  by (simp add: undo_def storage_after_undo_def message_after_undo_def split: sum.split)

lemma record_three:
  "\<exists>keep. recordOperation (recordOperation (recordOperation operations O1) O2) O3 = keep @ [O1, O2, O3]"
proof -
  obtain k1 where k1: "recordOperation operations O1 = k1 @ [O1]"
    using recordOperation_snoc [of "[]" operations O1] by (auto simp: maxHistorySize_def)
  obtain k2 where k2: "recordOperation (k1 @ [O1]) O2 = k2 @ [O1, O2]"
    using recordOperation_snoc [of "[O1]" k1 O2] by (auto simp: maxHistorySize_def)
  obtain k3 where k3: "recordOperation (k2 @ [O1, O2]) O3 = k3 @ [O1, O2, O3]"
    using recordOperation_snoc [of "[O1, O2]" k2 O3] by (auto simp: maxHistorySize_def)
  show ?thesis using k1 k2 k3 by simp
qed

text \<open>
  Claim C5. After \<open>O1\<close>, \<open>O2\<close>, \<open>O3\<close> have been recorded in that order, on any log, three
  \<open>undo\<close> calls in a row reverse \<open>O3\<close>, then \<open>O2\<close>, then \<open>O1\<close>: each call pops the
  last operation, leaves the storage that this operation's reversal leaves and shows its
  outcome, and the operations recorded before \<open>O1\<close> stay in the log.
\<close>

theorem undo_is_lifo:
  "\<exists>keep.
     recordOperation (recordOperation (recordOperation operations O1) O2) O3 = keep @ [O1, O2, O3] \<and>
     undo h (s, keep @ [O1, O2, O3]) =
       ((storage_after_undo h s O3, keep @ [O1, O2]), message_after_undo h s O3) \<and>
     undo h (storage_after_undo h s O3, keep @ [O1, O2]) =
       ((storage_after_undo h (storage_after_undo h s O3) O2, keep @ [O1]),
        message_after_undo h (storage_after_undo h s O3) O2) \<and>
     undo h (storage_after_undo h (storage_after_undo h s O3) O2, keep @ [O1]) =
       ((storage_after_undo h (storage_after_undo h (storage_after_undo h s O3) O2) O1, keep),
        message_after_undo h (storage_after_undo h (storage_after_undo h s O3) O2) O1)"
proof -
  obtain keep where
    "recordOperation (recordOperation (recordOperation operations O1) O2) O3 = keep @ [O1, O2, O3]"
    using record_three by blast
  moreover have "undo h (s', keep @ [O1, O2, O3]) =
      ((storage_after_undo h s' O3, keep @ [O1, O2]), message_after_undo h s' O3)" for s'
    using undo_snoc [of h s' "keep @ [O1, O2]" O3] by simp
  moreover have "undo h (s', keep @ [O1, O2]) =
      ((storage_after_undo h s' O2, keep @ [O1]), message_after_undo h s' O2)" for s'
    using undo_snoc [of h s' "keep @ [O1]" O2] by simp
  ultimately show ?thesis using undo_snoc [of h _ keep O1] by blast
qed

text \<open>
  Claim C6. On a log that is not empty, when the reversal of the last operation fails,
  \<open>undo\<close> shows the error \<open>Failed to undo operation: ...\<close> with the message of the failed
  reversal, which itself ends with the message of the file API's error; the popped
  operation is not pushed back, so the log is one operation shorter, and the storage is
  left as it was: the reversal ran once.
\<close>

theorem failed_undo_drops_entry:
  assumes "operations \<noteq> []"
      and "operation_undo h s (last operations) = Inl e"
  shows "undo h (s, operations) =
           ((s, butlast operations),
            ShowErrorMessage (''Failed to undo operation: '' @ message e)) \<and>
         Suc (length (butlast operations)) = length operations \<and>
         (case last operations of
            FileCreateOperation p \<Rightarrow>
              \<exists>cause. fs_delete h s p True = Inl cause \<and>
                message e = ''Failed to undo file creation: '' @ message cause
          | FileUpdateOperation p b \<Rightarrow>
              \<exists>cause. fs_writeFile h s p b = Inl cause \<and>
                message e = ''Failed to undo file update: '' @ message cause
          | FileDeleteOperation p b \<Rightarrow>
              \<exists>cause. fs_writeFile h s p b = Inl cause \<and>
                message e = ''Failed to undo file deletion: '' @ message cause)"
proof -
  have "undo h (s, operations) =
      ((s, butlast operations), ShowErrorMessage (''Failed to undo operation: '' @ message e))"
    using assms by (simp add: undo_def)
  moreover have "Suc (length (butlast operations)) = length operations"
    using assms(1) by (cases operations rule: rev_cases) simp_all
  moreover have "(case last operations of
            FileCreateOperation p \<Rightarrow>
              \<exists>cause. fs_delete h s p True = Inl cause \<and>
                message e = ''Failed to undo file creation: '' @ message cause
          | FileUpdateOperation p b \<Rightarrow>
              \<exists>cause. fs_writeFile h s p b = Inl cause \<and>
                message e = ''Failed to undo file update: '' @ message cause
          | FileDeleteOperation p b \<Rightarrow>
              \<exists>cause. fs_writeFile h s p b = Inl cause \<and>
                message e = ''Failed to undo file deletion: '' @ message cause)"
    using assms(2) by (cases "last operations") (auto split: sum.splits)
  ultimately show ?thesis by blast
qed

text \<open>
  An instance of C6: the created file was removed from outside, so deleting it fails.
\<close>

theorem failed_undo_drops_entry_witness:
  "undo memhost ([], [FileUpdateOperation ''/b.txt'' [], FileCreateOperation ''/a.txt'']) =
     (([], [FileUpdateOperation ''/b.txt'' []]),
      ShowErrorMessage ''Failed to undo operation: Failed to undo file creation: FileNotFound'')"
proof -
  have ne: "[FileUpdateOperation ''/b.txt'' [], FileCreateOperation ''/a.txt''] \<noteq> []" by simp
  have fails: "operation_undo memhost []
      (last [FileUpdateOperation ''/b.txt'' [], FileCreateOperation ''/a.txt'']) =
      Inl (Error ''Failed to undo file creation: FileNotFound'')"
    by (simp add: memhost_def mem_delete_def)
  show ?thesis using failed_undo_drops_entry [OF ne fails] by simp
qed

section \<open>The file system service\<close>

lemma recordOperation_ends_with:
  "\<exists>keep. recordOperation operations operation = keep @ [operation]"
  using recordOperation_snoc [of "[]" operations operation]
  by (auto simp: maxHistorySize_def)

text \<open>
  Claim C2, amended. For a path that exists and whose parent directory exists (the
  \<open>stat\<close> of \<open>path.dirname\<close> succeeds), \<open>createFile\<close> fails with
  \<open>Failed to create file: File already exists: <path>\<close>, leaves the storage as it was and
  records no operation.
\<close>

theorem create_on_existing_path:
  assumes "fs_stat h s filePath = Inr ()"
      and "fs_stat h s (path_dirname h filePath) = Inr ()"
  shows "createFile h (s, operations) filePath content =
           ((s, operations),
            Inl (Error (''Failed to create file: File already exists: '' @ filePath)))"
  using assms by (simp add: createFile_def ensureDirectory_def fileExists_def)

text \<open>An instance of the amended C2 on the in-memory backend.\<close>

theorem create_on_existing_path_witness:
  "createFile memhost ([(''/a'', Directory), (''/a/b.txt'', File [104, 105])], []) ''/a/b.txt'' ''x'' =
     (([(''/a'', Directory), (''/a/b.txt'', File [104, 105])], []),
      Inl (Error ''Failed to create file: File already exists: /a/b.txt''))"
proof -
  have a: "fs_stat memhost [(''/a'', Directory), (''/a/b.txt'', File [104, 105])] ''/a/b.txt'' = Inr ()"
    by (simp add: memhost_def mem_stat_def)
  have b: "fs_stat memhost [(''/a'', Directory), (''/a/b.txt'', File [104, 105])]
             (path_dirname memhost ''/a/b.txt'') = Inr ()"
    by (simp add: memhost_def mem_stat_def mem_dirname_def)
  show ?thesis using create_on_existing_path [OF a b, of "[]" "''x''"] by simp
qed

text \<open>
  C2 as stated fails: \<open>createFile\<close> calls \<open>ensureDirectory\<close> before it probes the path.
  On a backend that holds the file \<open>/a/b.txt\<close> and no entry for \<open>/a\<close> (a store that
  keeps no directory entries), the call creates the directory \<open>/a\<close> and only then
  fails with \<open>File already exists\<close>. On a backend that holds both but whose \<open>stat\<close> and
  \<open>createDirectory\<close> throw on \<open>/a\<close>, the call fails with \<open>Failed to create directory\<close>
  and the path is never probed.
\<close>

theorem create_on_existing_path_counterexample:
  "fs_stat memhost [(''/a/b.txt'', File [104, 105])] ''/a/b.txt'' = Inr () \<and>
   createFile memhost ([(''/a/b.txt'', File [104, 105])], []) ''/a/b.txt'' ''x'' =
     (([(''/a/b.txt'', File [104, 105]), (''/a'', Directory)], []),
      Inl (Error ''Failed to create file: File already exists: /a/b.txt'')) \<and>
   fs_stat
     (memhost\<lparr> fs_stat := (\<lambda>s p. if p = ''/a'' then Inl (Error ''Unavailable'') else mem_stat s p),
               fs_createDirectory := (\<lambda>s p. Inl (Error ''Unavailable'')) \<rparr>)
     [(''/a'', Directory), (''/a/b.txt'', File [104, 105])] ''/a/b.txt'' = Inr () \<and>
   createFile
     (memhost\<lparr> fs_stat := (\<lambda>s p. if p = ''/a'' then Inl (Error ''Unavailable'') else mem_stat s p),
               fs_createDirectory := (\<lambda>s p. Inl (Error ''Unavailable'')) \<rparr>)
     ([(''/a'', Directory), (''/a/b.txt'', File [104, 105])], []) ''/a/b.txt'' ''x'' =
     (([(''/a'', Directory), (''/a/b.txt'', File [104, 105])], []),
      Inl (Error ''Failed to create file: Failed to create directory: Unavailable''))"
  by (simp add: createFile_def ensureDirectory_def fileExists_def memhost_def mem_stat_def
      mem_dirname_def mem_createDirectory_def)

text \<open>
  Claim C10, amended. When \<open>stat\<close> throws on a path, whatever the error, \<open>fileExists\<close> is
  \<open>false\<close> (it is a total function and never throws); \<open>updateFile\<close> and \<open>deleteFile\<close> then
  fail with \<open>File does not exist: <path>\<close>, without the message of the \<open>stat\<close> error and
  without touching storage or log. \<open>createFile\<close> runs \<open>ensureDirectory\<close> on the parent
  first: once that has returned, and \<open>stat\<close> throws on the path when it is probed,
  \<open>createFile\<close> goes on to \<open>writeFile\<close>, and records the creation when the write succeeds.
\<close>

theorem probe_collapses_stat_errors:
  assumes "fs_stat h s filePath = Inl e"
  shows "fileExists h s filePath = False \<and>
         updateFile h (s, operations) filePath content =
           ((s, operations),
            Inl (Error (''Failed to update file: File does not exist: '' @ filePath))) \<and>
         deleteFile h (s, operations) filePath =
           ((s, operations),
            Inl (Error (''Failed to delete file: File does not exist: '' @ filePath))) \<and>
         (\<forall>s1 e1. ensureDirectory h s (path_dirname h filePath) = Inr s1 \<and>
                  fs_stat h s1 filePath = Inl e1 \<longrightarrow>
            createFile h (s, operations) filePath content =
              (case fs_writeFile h s1 filePath (buffer_from_utf8 h content) of
                 Inl e2 \<Rightarrow>
                   ((s1, operations), Inl (Error (''Failed to create file: '' @ message e2)))
               | Inr s2 \<Rightarrow>
                   ((s2, recordOperation operations (FileCreateOperation filePath)), Inr ())))"
  using assms by (simp add: fileExists_def updateFile_def deleteFile_def createFile_def)

lemma fileExists_iff: "fileExists h s p \<longleftrightarrow> fs_stat h s p = Inr ()"
  by (simp add: fileExists_def split: sum.split)

text \<open>
  An instance of the amended C10: the file \<open>/a/b.txt\<close> is in the storage and can be read,
  but \<open>stat\<close> throws an input/output error on it. The probe answers \<open>false\<close>, update and
  delete report that the file does not exist, and create overwrites the file.
\<close>

theorem probe_collapses_stat_errors_witness:
  "fs_readFile
     (memhost\<lparr> fs_stat := (\<lambda>s p. if p = ''/a/b.txt'' then Inl (Error ''EIO'') else mem_stat s p) \<rparr>)
     [(''/a'', Directory), (''/a/b.txt'', File [104, 105])] ''/a/b.txt'' = Inr [104, 105] \<and>
   fileExists
     (memhost\<lparr> fs_stat := (\<lambda>s p. if p = ''/a/b.txt'' then Inl (Error ''EIO'') else mem_stat s p) \<rparr>)
     [(''/a'', Directory), (''/a/b.txt'', File [104, 105])] ''/a/b.txt'' = False \<and>
   updateFile
     (memhost\<lparr> fs_stat := (\<lambda>s p. if p = ''/a/b.txt'' then Inl (Error ''EIO'') else mem_stat s p) \<rparr>)
     ([(''/a'', Directory), (''/a/b.txt'', File [104, 105])], []) ''/a/b.txt'' ''x'' =
     (([(''/a'', Directory), (''/a/b.txt'', File [104, 105])], []),
      Inl (Error ''Failed to update file: File does not exist: /a/b.txt'')) \<and>
   deleteFile
     (memhost\<lparr> fs_stat := (\<lambda>s p. if p = ''/a/b.txt'' then Inl (Error ''EIO'') else mem_stat s p) \<rparr>)
     ([(''/a'', Directory), (''/a/b.txt'', File [104, 105])], []) ''/a/b.txt'' =
     (([(''/a'', Directory), (''/a/b.txt'', File [104, 105])], []),
      Inl (Error ''Failed to delete file: File does not exist: /a/b.txt'')) \<and>
   createFile
     (memhost\<lparr> fs_stat := (\<lambda>s p. if p = ''/a/b.txt'' then Inl (Error ''EIO'') else mem_stat s p) \<rparr>)
     ([(''/a'', Directory), (''/a/b.txt'', File [104, 105])], []) ''/a/b.txt'' ''x'' =
     (([(''/a'', Directory), (''/a/b.txt'', File [120])], [FileCreateOperation ''/a/b.txt'']),
      Inr ())"
proof -
  let ?h = "memhost\<lparr> fs_stat :=
    (\<lambda>s p. if p = ''/a/b.txt'' then Inl (Error ''EIO'') else mem_stat s p) \<rparr>"
  let ?s = "[(''/a'', Directory), (''/a/b.txt'', File [104, 105])]"
  have st: "fs_stat ?h ?s ''/a/b.txt'' = Inl (Error ''EIO'')"
    by simp
  have rd: "fs_readFile ?h ?s ''/a/b.txt'' = Inr [104, 105]"
    by (simp add: memhost_def mem_readFile_def)
  have dir: "ensureDirectory ?h ?s (path_dirname ?h ''/a/b.txt'') = Inr ?s"
    by (simp add: ensureDirectory_def memhost_def mem_stat_def mem_dirname_def)
  have wr: "fs_writeFile ?h ?s ''/a/b.txt'' (buffer_from_utf8 ?h ''x'') =
      Inr [(''/a'', Directory), (''/a/b.txt'', File [120])]"
    by (simp add: memhost_def mem_writeFile_def utf8_def utf8_unit_def)
  have rec: "recordOperation [] (FileCreateOperation ''/a/b.txt'') = [FileCreateOperation ''/a/b.txt'']"
    by (simp add: recordOperation_def maxHistorySize_def)
  have cr: "createFile ?h (?s, []) ''/a/b.txt'' ''x'' =
     (([(''/a'', Directory), (''/a/b.txt'', File [120])], [FileCreateOperation ''/a/b.txt'']),
      Inr ())"
    using probe_collapses_stat_errors [OF st, of "[]" "''x''"] dir st
    by (simp only: wr rec sum.case)
  show ?thesis
    using probe_collapses_stat_errors [OF st, of "[]" "''x''"] rd cr by simp
qed

text \<open>
  C10 as stated fails in its last part: on a backend whose \<open>stat\<close> and \<open>createDirectory\<close>
  throw, \<open>stat\<close> throws on the path, but \<open>createFile\<close> fails in \<open>ensureDirectory\<close> with
  \<open>Failed to create directory\<close> and never writes, although the write would succeed.
\<close>

theorem probe_collapses_stat_errors_counterexample:
  "fs_stat
     (memhost\<lparr> fs_stat := (\<lambda>s p. Inl (Error ''EIO'')),
               fs_createDirectory := (\<lambda>s p. Inl (Error ''EIO'')) \<rparr>)
     [(''/a'', Directory)] ''/a/b.txt'' = Inl (Error ''EIO'') \<and>
   fs_writeFile
     (memhost\<lparr> fs_stat := (\<lambda>s p. Inl (Error ''EIO'')),
               fs_createDirectory := (\<lambda>s p. Inl (Error ''EIO'')) \<rparr>)
     [(''/a'', Directory)] ''/a/b.txt'' [120] =
     Inr [(''/a'', Directory), (''/a/b.txt'', File [120])] \<and>
   createFile
     (memhost\<lparr> fs_stat := (\<lambda>s p. Inl (Error ''EIO'')),
               fs_createDirectory := (\<lambda>s p. Inl (Error ''EIO'')) \<rparr>)
     ([(''/a'', Directory)], []) ''/a/b.txt'' ''x'' =
     (([(''/a'', Directory)], []),
      Inl (Error ''Failed to create file: Failed to create directory: EIO''))"
  by (simp add: createFile_def ensureDirectory_def memhost_def mem_writeFile_def)

section \<open>Undo inverts the mutations\<close>

lemma undo_recorded:
  assumes "undo h (s, recordOperation operations operation) =
     ((s', operations'), ShowInformationMessage ''Operation undone successfully'')"
  shows "operation_undo h s operation = Inr s'"
proof -
  obtain keep where "recordOperation operations operation = keep @ [operation]"
    using recordOperation_ends_with by blast
  with assms have "((storage_after_undo h s operation, keep), message_after_undo h s operation) =
      ((s', operations'), ShowInformationMessage ''Operation undone successfully'')"
    by (simp add: undo_snoc)
  then show ?thesis
    by (auto simp: storage_after_undo_def message_after_undo_def split: sum.splits)
qed

lemma createFile_succeeds:
  "createFile h (s, operations) p content = ((s1, operations1), Inr ()) \<Longrightarrow>
   operations1 = recordOperation operations (FileCreateOperation p)"
  unfolding createFile_def by (simp split: sum.splits if_splits)

lemma updateFile_succeeds:
  "updateFile h (s, operations) p content = ((s1, operations1), Inr ()) \<Longrightarrow>
   \<exists>before. fs_readFile h s p = Inr before \<and>
     operations1 = recordOperation operations (FileUpdateOperation p before)"
  unfolding updateFile_def by (simp split: sum.splits if_splits)

lemma deleteFile_succeeds:
  "deleteFile h (s, operations) p = ((s1, operations1), Inr ()) \<Longrightarrow>
   \<exists>before. fs_readFile h s p = Inr before \<and>
     operations1 = recordOperation operations (FileDeleteOperation p before)"
  unfolding deleteFile_def by (simp split: sum.splits if_splits)

text \<open>
  Claim C4. On a storage backend where a written file reads back as written and a
  deleted path is gone: a successful reversal of a create operation leaves no file at its
  path, and a successful reversal of an update or delete operation leaves at its path
  exactly the bytes the operation carries. The operation recorded by \<open>updateFile\<close> and
  \<open>deleteFile\<close> carries the bytes read before the mutation, so \<open>createFile\<close> followed by a
  successful \<open>undo\<close> leaves no file at the path, and \<open>updateFile\<close> or \<open>deleteFile\<close> followed
  by a successful \<open>undo\<close> leaves the path with the content it had before.
\<close>

theorem undo_inverts_mutation:
  assumes wr: "write_then_read h" and ds: "delete_then_stat h"
  shows "(\<forall>s s'. operation_undo h s (FileCreateOperation p) = Inr s' \<longrightarrow> \<not> fileExists h s' p) \<and>
         (\<forall>s s'. operation_undo h s (FileUpdateOperation p b) = Inr s' \<longrightarrow>
                  fs_readFile h s' p = Inr b) \<and>
         (\<forall>s s'. operation_undo h s (FileDeleteOperation p b) = Inr s' \<longrightarrow>
                  fs_readFile h s' p = Inr b) \<and>
         (\<forall>s operations content s1 operations1 s2 operations2.
            createFile h (s, operations) p content = ((s1, operations1), Inr ()) \<and>
            undo h (s1, operations1) =
              ((s2, operations2), ShowInformationMessage ''Operation undone successfully'') \<longrightarrow>
            \<not> fileExists h s2 p) \<and>
         (\<forall>s operations content s1 operations1 s2 operations2.
            updateFile h (s, operations) p content = ((s1, operations1), Inr ()) \<and>
            undo h (s1, operations1) =
              ((s2, operations2), ShowInformationMessage ''Operation undone successfully'') \<longrightarrow>
            (\<exists>before. fs_readFile h s p = Inr before \<and> fs_readFile h s2 p = Inr before)) \<and>
         (\<forall>s operations s1 operations1 s2 operations2.
            deleteFile h (s, operations) p = ((s1, operations1), Inr ()) \<and>
            undo h (s1, operations1) =
              ((s2, operations2), ShowInformationMessage ''Operation undone successfully'') \<longrightarrow>
            (\<exists>before. fs_readFile h s p = Inr before \<and> fs_readFile h s2 p = Inr before))"
proof -
  have write_read: "fs_writeFile h s p b = Inr s' \<Longrightarrow> fs_readFile h s' p = Inr b" for s p b s'
    using wr by (simp add: write_then_read_def)
  have delete_stat: "fs_delete h s p True = Inr s' \<Longrightarrow> fs_stat h s' p \<noteq> Inr ()" for s p s'
    using ds by (simp add: delete_then_stat_def)
  show ?thesis
  proof (intro conjI allI impI)
  fix s s'
  assume "operation_undo h s (FileCreateOperation p) = Inr s'"
  then have "fs_delete h s p True = Inr s'" by (simp split: sum.splits)
  then show "\<not> fileExists h s' p" using delete_stat by (simp add: fileExists_iff)
next
  fix s s'
  assume "operation_undo h s (FileUpdateOperation p b) = Inr s'"
  then have "fs_writeFile h s p b = Inr s'" by (simp split: sum.splits)
  then show "fs_readFile h s' p = Inr b" by (rule write_read)
next
  fix s s'
  assume "operation_undo h s (FileDeleteOperation p b) = Inr s'"
  then have "fs_writeFile h s p b = Inr s'" by (simp split: sum.splits)
  then show "fs_readFile h s' p = Inr b" by (rule write_read)
next
  fix s operations content s1 operations1 s2 operations2
  assume "createFile h (s, operations) p content = ((s1, operations1), Inr ()) \<and>
    undo h (s1, operations1) =
      ((s2, operations2), ShowInformationMessage ''Operation undone successfully'')"
  then have "undo h (s1, recordOperation operations (FileCreateOperation p)) =
      ((s2, operations2), ShowInformationMessage ''Operation undone successfully'')"
    using createFile_succeeds [of h s operations p content s1 operations1] by simp
  then have "operation_undo h s1 (FileCreateOperation p) = Inr s2"
    by (rule undo_recorded)
  then have "fs_delete h s1 p True = Inr s2" by (simp split: sum.splits)
  then show "\<not> fileExists h s2 p" using delete_stat by (simp add: fileExists_iff)
next
  fix s operations content s1 operations1 s2 operations2
  assume a: "updateFile h (s, operations) p content = ((s1, operations1), Inr ()) \<and>
    undo h (s1, operations1) =
      ((s2, operations2), ShowInformationMessage ''Operation undone successfully'')"
  then obtain before where before: "fs_readFile h s p = Inr before"
    and "operations1 = recordOperation operations (FileUpdateOperation p before)"
    using updateFile_succeeds [of h s operations p content s1 operations1] by auto
  with a have "undo h (s1, recordOperation operations (FileUpdateOperation p before)) =
      ((s2, operations2), ShowInformationMessage ''Operation undone successfully'')"
    by simp
  then have "operation_undo h s1 (FileUpdateOperation p before) = Inr s2"
    by (rule undo_recorded)
  then have "fs_writeFile h s1 p before = Inr s2" by (simp split: sum.splits)
  then have "fs_readFile h s2 p = Inr before" by (rule write_read)
  with before show "\<exists>before. fs_readFile h s p = Inr before \<and> fs_readFile h s2 p = Inr before"
    by blast
next
  fix s operations s1 operations1 s2 operations2
  assume a: "deleteFile h (s, operations) p = ((s1, operations1), Inr ()) \<and>
    undo h (s1, operations1) =
      ((s2, operations2), ShowInformationMessage ''Operation undone successfully'')"
  then obtain before where before: "fs_readFile h s p = Inr before"
    and "operations1 = recordOperation operations (FileDeleteOperation p before)"
    using deleteFile_succeeds [of h s operations p s1 operations1] by auto
  with a have "undo h (s1, recordOperation operations (FileDeleteOperation p before)) =
      ((s2, operations2), ShowInformationMessage ''Operation undone successfully'')"
    by simp
  then have "operation_undo h s1 (FileDeleteOperation p before) = Inr s2"
    by (rule undo_recorded)
  then have "fs_writeFile h s1 p before = Inr s2" by (simp split: sum.splits)
  then have "fs_readFile h s2 p = Inr before" by (rule write_read)
  with before show "\<exists>before. fs_readFile h s p = Inr before \<and> fs_readFile h s2 p = Inr before"
    by blast
  qed
qed

lemma mem_write_then_read: "write_then_read memhost"
  by (auto simp: write_then_read_def memhost_def mem_writeFile_def mem_readFile_def update_conv'
      split: option.splits node.splits)

lemma mem_delete_then_stat: "delete_then_stat memhost"
  by (auto simp: delete_then_stat_def memhost_def mem_delete_def mem_stat_def
      split: option.splits if_splits dest: map_of_SomeD)

text \<open>
  An instance of C4 on the in-memory backend, which satisfies both laws: an update, a
  delete and a create, each followed by \<open>undo\<close>.
\<close>

theorem undo_inverts_mutation_witness:
  "updateFile memhost ([(''/a.txt'', File [111, 108, 100])], []) ''/a.txt'' ''new'' =
     (([(''/a.txt'', File [110, 101, 119])], [FileUpdateOperation ''/a.txt'' [111, 108, 100]]),
      Inr ()) \<and>
   undo memhost
     ([(''/a.txt'', File [110, 101, 119])], [FileUpdateOperation ''/a.txt'' [111, 108, 100]]) =
     (([(''/a.txt'', File [111, 108, 100])], []),
      ShowInformationMessage ''Operation undone successfully'') \<and>
   fs_readFile memhost [(''/a.txt'', File [111, 108, 100])] ''/a.txt'' = Inr [111, 108, 100] \<and>
   deleteFile memhost ([(''/a.txt'', File [111, 108, 100])], []) ''/a.txt'' =
     (([], [FileDeleteOperation ''/a.txt'' [111, 108, 100]]), Inr ()) \<and>
   undo memhost ([], [FileDeleteOperation ''/a.txt'' [111, 108, 100]]) =
     (([(''/a.txt'', File [111, 108, 100])], []),
      ShowInformationMessage ''Operation undone successfully'') \<and>
   createFile memhost ([(''.'', Directory)], []) ''a.txt'' ''new'' =
     (([(''.'', Directory), (''a.txt'', File [110, 101, 119])], [FileCreateOperation ''a.txt'']),
      Inr ()) \<and>
   undo memhost
     ([(''.'', Directory), (''a.txt'', File [110, 101, 119])], [FileCreateOperation ''a.txt'']) =
     (([(''.'', Directory)], []), ShowInformationMessage ''Operation undone successfully'') \<and>
   \<not> fileExists memhost [(''.'', Directory)] ''a.txt''"
proof -
  have rec: "recordOperation [] operation = [operation]" for operation
    by (simp add: recordOperation_def maxHistorySize_def)
  have up: "updateFile memhost ([(''/a.txt'', File [111, 108, 100])], []) ''/a.txt'' ''new'' =
     (([(''/a.txt'', File [110, 101, 119])], [FileUpdateOperation ''/a.txt'' [111, 108, 100]]),
      Inr ())"
    by (simp add: updateFile_def fileExists_def memhost_def mem_stat_def mem_readFile_def
        mem_writeFile_def utf8_def utf8_unit_def rec)
  have up_undo: "undo memhost
     ([(''/a.txt'', File [110, 101, 119])], [FileUpdateOperation ''/a.txt'' [111, 108, 100]]) =
     (([(''/a.txt'', File [111, 108, 100])], []),
      ShowInformationMessage ''Operation undone successfully'')"
    by (simp add: undo_def memhost_def mem_writeFile_def)
  have del: "deleteFile memhost ([(''/a.txt'', File [111, 108, 100])], []) ''/a.txt'' =
     (([], [FileDeleteOperation ''/a.txt'' [111, 108, 100]]), Inr ())"
    by (simp add: deleteFile_def fileExists_def memhost_def mem_stat_def mem_readFile_def
        mem_delete_def below_directory_def rec)
  have del_undo: "undo memhost ([], [FileDeleteOperation ''/a.txt'' [111, 108, 100]]) =
     (([(''/a.txt'', File [111, 108, 100])], []),
      ShowInformationMessage ''Operation undone successfully'')"
    by (simp add: undo_def memhost_def mem_writeFile_def)
  have cr: "createFile memhost ([(''.'', Directory)], []) ''a.txt'' ''new'' =
     (([(''.'', Directory), (''a.txt'', File [110, 101, 119])], [FileCreateOperation ''a.txt'']),
      Inr ())"
    by (simp add: createFile_def ensureDirectory_def fileExists_def memhost_def mem_stat_def
        mem_dirname_def mem_writeFile_def utf8_def utf8_unit_def rec)
  have cr_undo: "undo memhost
     ([(''.'', Directory), (''a.txt'', File [110, 101, 119])], [FileCreateOperation ''a.txt'']) =
     (([(''.'', Directory)], []), ShowInformationMessage ''Operation undone successfully'')"
    by (simp add: undo_def memhost_def mem_delete_def below_directory_def)
  have "\<exists>before. fs_readFile memhost [(''/a.txt'', File [111, 108, 100])] ''/a.txt'' = Inr before \<and>
      fs_readFile memhost [(''/a.txt'', File [111, 108, 100])] ''/a.txt'' = Inr before"
    using undo_inverts_mutation [where h = memhost and p = "''/a.txt''" and b = "[]",
        OF mem_write_then_read mem_delete_then_stat] up up_undo
    by blast
  moreover have "fs_readFile memhost [(''/a.txt'', File [111, 108, 100])] ''/a.txt'' =
      Inr [111, 108, 100]"
    by (simp add: memhost_def mem_readFile_def)
  moreover have "\<not> fileExists memhost [(''.'', Directory)] ''a.txt''"
    using undo_inverts_mutation [where h = memhost and p = "''a.txt''" and b = "[]",
        OF mem_write_then_read mem_delete_then_stat] cr cr_undo
    by blast
  ultimately show ?thesis using up up_undo del del_undo cr cr_undo by simp
qed

section \<open>The generation planner\<close>

text \<open>
  Claim C1, amended. The flat approach is chosen exactly when the estimate
  \<open>description.length / 4 + 1000\<close> is at most 2000, that is for descriptions of at most
  4000 code units, and the chunked approach exactly when the estimate is greater than
  2000; \<open>_generateProjectStructure\<close> runs the chosen approach.
\<close>

theorem strategy_threshold:
  "(selectStrategy description = Flat \<longleftrightarrow> estimatedTokens description \<le> 2000) \<and>
   (selectStrategy description = Chunked \<longleftrightarrow> estimatedTokens description > 2000) \<and>
   (estimatedTokens description \<le> 2000 \<longleftrightarrow> length description \<le> 4000) \<and>
   generateProjectStructure svc a description framework =
     (if estimatedTokens description > 2000
      then generateLargerProject svc a description framework
      else generateFlatProject svc a description framework)"
  by (auto simp: selectStrategy_def estimatedTokens_def generateProjectStructure_def)

text \<open>
  C1 as stated fails at the threshold: a description of 4000 code units has the estimate
  2000, which is not below 2000, and the flat approach is chosen.
\<close>

theorem strategy_threshold_counterexample:
  "estimatedTokens (replicate 4000 (CHR ''a'')) = 2000 \<and>
   selectStrategy (replicate 4000 (CHR ''a'')) = Flat"
  by (simp add: selectStrategy_def estimatedTokens_def)

text \<open>The two examples of the specification: lengths 3000 and 5000.\<close>

lemma strategy_examples:
  "estimatedTokens (replicate 3000 (CHR ''a'')) = 1750 \<and>
   selectStrategy (replicate 3000 (CHR ''a'')) = Flat \<and>
   estimatedTokens (replicate 5000 (CHR ''a'')) = 2250 \<and>
   selectStrategy (replicate 5000 (CHR ''a'')) = Chunked"
  by (simp add: selectStrategy_def estimatedTokens_def)

text \<open>
  The structure phase: a response without a bracketed array gives the empty list of
  paths; a bracketed text that \<open>JSON.parse\<close> refuses gives the error.
\<close>

lemma parseStructure_no_match:
  "match_brackets structureResponse = None \<Longrightarrow> parseStructure svc structureResponse = Inr []"
  by (simp add: parseStructure_def)

lemma parseStructure_parse_error:
  "match_brackets structureResponse = Some inner \<Longrightarrow>
   json_parse_paths svc (''['' @ inner @ '']'') = None \<Longrightarrow>
   parseStructure svc structureResponse = Inl (Error ''Failed to generate project structure'')"
  by (simp add: parseStructure_def)

text \<open>
  Claim C7 fails on the code for a response without a bracketed array: the chunked
  approach then returns a plan with no files instead of failing, also when it is reached
  through \<open>_generateProjectStructure\<close> with a description of 4001 code units.
\<close>

theorem no_array_gives_empty_plan:
  "match_brackets ''I cannot list the files.'' = None \<and>
   generateLargerProject example_service [Inr (Some ''I cannot list the files.'')]
     ''a web shop'' ''react'' = (Inr \<lparr> files = [] \<rparr>, []) \<and>
   generateProjectStructure example_service [Inr (Some ''I cannot list the files.'')]
     (replicate 4001 (CHR ''a'')) ''react'' = (Inr \<lparr> files = [] \<rparr>, [])"
proof -
  have no_match: "match_brackets ''I cannot list the files.'' = None"
    by (simp add: match_brackets_def)
  have larger: "generateLargerProject example_service [Inr (Some ''I cannot list the files.'')]
      description ''react'' = (Inr \<lparr> files = [] \<rparr>, [])" for description
    by (simp add: generateLargerProject_def callAI_def example_service_def scripted_def
        parseStructure_def no_match)
  have "selectStrategy (replicate 4001 (CHR ''a'')) = Chunked"
    by (simp add: selectStrategy_def estimatedTokens_def)
  then have "generateProjectStructure example_service [Inr (Some ''I cannot list the files.'')]
      (replicate 4001 (CHR ''a'')) ''react'' = (Inr \<lparr> files = [] \<rparr>, [])"
    by (simp only: generateProjectStructure_def strategy.case larger)
  with no_match larger show ?thesis by simp
qed

lemma callAI_error_message:
  "callAI svc a prompt maxTokens = (Inl e, a') \<Longrightarrow> message e \<noteq> []"
  by (auto simp: callAI_def split: option.splits prod.splits sum.splits)

lemma generateFiles_planEntry:
  "fst (generateFiles svc a description frameworkDetails filePaths generated) =
     generated @ map2 planEntry filePaths
       (contentResponses svc a description frameworkDetails filePaths)"
proof (induction filePaths arbitrary: a generated)
  case Nil
  show ?case by simp
next
  case (Cons filePath rest)
  obtain outcome a' where
    call: "callAI svc a (filePrompt filePath frameworkDetails description) 2048 = (outcome, a')"
    by (cases "callAI svc a (filePrompt filePath frameworkDetails description) 2048")
  show ?case
  proof (cases outcome)
    case (Inl e)
    with call have "message e \<noteq> []"
      using callAI_error_message [of svc a "filePrompt filePath frameworkDetails description" 2048 e a']
      by simp
    with call Inl show ?thesis
      by (simp add: Cons.IH planEntry_def error_toString_def)
  next
    case (Inr fileContent)
    with call show ?thesis
      by (simp add: Cons.IH planEntry_def)
  qed
qed

lemma length_contentResponses:
  "length (contentResponses svc a description frameworkDetails filePaths) = length filePaths"
  by (induction filePaths arbitrary: a) (auto split: prod.splits)

text \<open>
  Claim C8. The content phase returns one entry per path, in the order of the paths,
  whatever the outcomes of the calls: the entry of a path whose call failed holds the
  placeholder \<open>// Failed to generate content for this file: Error: ...\<close> with the message
  of the error, and the entry of every other path holds the content extracted from its
  response.
\<close>

theorem content_failure_keeps_batch:
  "fst (generateFiles svc a description frameworkDetails filePaths []) =
     map2 planEntry filePaths (contentResponses svc a description frameworkDetails filePaths) \<and>
   length (contentResponses svc a description frameworkDetails filePaths) = length filePaths \<and>
   length (fst (generateFiles svc a description frameworkDetails filePaths [])) =
     length filePaths \<and>
   map file_path (fst (generateFiles svc a description frameworkDetails filePaths [])) =
     filePaths \<and>
   file_content (planEntry filePath (Inl e)) =
     ''// Failed to generate content for this file: Error: '' @ message e \<and>
   file_content (planEntry filePath (Inr fileContent)) = cleanedContent fileContent"
proof -
  let ?rs = "contentResponses svc a description frameworkDetails filePaths"
  have len: "length ?rs = length filePaths" by (rule length_contentResponses)
  have eq: "fst (generateFiles svc a description frameworkDetails filePaths []) =
      map2 planEntry filePaths ?rs"
    using generateFiles_planEntry [of svc a description frameworkDetails filePaths "[]"] by simp
  have paths: "map file_path (map2 planEntry xs ys) = xs" if "length ys = length xs"
    for xs :: "string list" and ys :: "(error + string) list"
    using that
    by (induction xs ys rule: list_induct2') (auto simp: planEntry_def split: sum.splits)
  show ?thesis using len eq paths [OF len] by (simp add: planEntry_def)
qed

text \<open>
  An instance of C8 through \<open>_generateLargerProject\<close>: three paths, the call for the
  second fails.
\<close>

theorem content_failure_keeps_batch_witness:
  "generateLargerProject example_service
     [Inr (Some (''['' @ dq @ ''a.js'' @ dq @ '', '' @ dq @ ''b.js'' @ dq @ '', '' @
                 dq @ ''c.js'' @ dq @ '']'')),
      Inr (Some ''let a = 1;''), Inl (Error ''429 Too Many Requests''),
      Inr (Some (''```js'' @ nl @ ''let c = 3;'' @ nl @ ''```''))]
     ''a web shop'' ''react'' =
   (Inr \<lparr> files =
      [\<lparr> file_path = ''a.js'', file_content = ''let a = 1;'' \<rparr>,
       \<lparr> file_path = ''b.js'',
         file_content = ''// Failed to generate content for this file: Error: '' @
                        ''Error calling AI API: 429 Too Many Requests'' \<rparr>,
       \<lparr> file_path = ''c.js'', file_content = ''let c = 3;'' \<rparr>] \<rparr>, [])"
proof -
  let ?script = "[Inr (Some ''let a = 1;''), Inl (Error ''429 Too Many Requests''),
      Inr (Some (''```js'' @ nl @ ''let c = 3;'' @ nl @ ''```''))]"
  let ?paths = "[''a.js'', ''b.js'', ''c.js'']"
  let ?fd = "getFrameworkDetails ''react''"
  have parse: "parseStructure example_service
      (''['' @ dq @ ''a.js'' @ dq @ '', '' @ dq @ ''b.js'' @ dq @ '', '' @
       dq @ ''c.js'' @ dq @ '']'') = Inr ?paths"
    by (simp add: parseStructure_def match_brackets_def example_service_def
        parse_string_array_def unquote_def json_trim_def isJsonSpace_def dq_def)
  have rs: "contentResponses example_service ?script ''a web shop'' ?fd ?paths =
      [Inr ''let a = 1;'', Inl (Error ''Error calling AI API: 429 Too Many Requests''),
       Inr (''```js'' @ nl @ ''let c = 3;'' @ nl @ ''```'')]"
    by (simp add: callAI_def example_service_def scripted_def)
  have snd_gen: "snd (generateFiles example_service ?script ''a web shop'' ?fd ?paths []) = []"
    by (simp add: callAI_def example_service_def scripted_def)
  have "fst (generateFiles example_service ?script ''a web shop'' ?fd ?paths []) =
      map2 planEntry ?paths (contentResponses example_service ?script ''a web shop'' ?fd ?paths)"
    by (rule content_failure_keeps_batch
          [of example_service ?script "''a web shop''" ?fd ?paths, THEN conjunct1])
  also have "\<dots> =
      [\<lparr> file_path = ''a.js'', file_content = ''let a = 1;'' \<rparr>,
       \<lparr> file_path = ''b.js'',
         file_content = ''// Failed to generate content for this file: Error: '' @
                        ''Error calling AI API: 429 Too Many Requests'' \<rparr>,
       \<lparr> file_path = ''c.js'', file_content = ''let c = 3;'' \<rparr>]"
    unfolding rs
    by (simp add: planEntry_def cleanedContent_def fence_at_def trim_def isWhiteSpace_def
        isWordChar_def nl_def)
  finally have fst_gen: "fst (generateFiles example_service ?script ''a web shop'' ?fd ?paths []) =
      [\<lparr> file_path = ''a.js'', file_content = ''let a = 1;'' \<rparr>,
       \<lparr> file_path = ''b.js'',
         file_content = ''// Failed to generate content for this file: Error: '' @
                        ''Error calling AI API: 429 Too Many Requests'' \<rparr>,
       \<lparr> file_path = ''c.js'', file_content = ''let c = 3;'' \<rparr>]" .
  have gen: "generateFiles example_service ?script ''a web shop'' ?fd ?paths [] =
      ([\<lparr> file_path = ''a.js'', file_content = ''let a = 1;'' \<rparr>,
       \<lparr> file_path = ''b.js'',
         file_content = ''// Failed to generate content for this file: Error: '' @
                        ''Error calling AI API: 429 Too Many Requests'' \<rparr>,
       \<lparr> file_path = ''c.js'', file_content = ''let c = 3;'' \<rparr>], [])"
    by (simp only: prod_eq_iff fst_conv snd_conv fst_gen snd_gen)
  have call: "callAI example_service
      (Inr (Some (''['' @ dq @ ''a.js'' @ dq @ '', '' @ dq @ ''b.js'' @ dq @ '', '' @
                 dq @ ''c.js'' @ dq @ '']'')) # ?script)
      (structurePrompt ''a web shop'' ''react'') 2048 =
      (Inr (''['' @ dq @ ''a.js'' @ dq @ '', '' @ dq @ ''b.js'' @ dq @ '', '' @
                 dq @ ''c.js'' @ dq @ '']''), ?script)"
    by (simp add: callAI_def example_service_def scripted_def)
  show ?thesis
    unfolding generateLargerProject_def by (simp only: call parse gen prod.case sum.case)
qed

section \<open>Applying an update plan\<close>

text \<open>
  Claim C9, amended. An entry of the update plan is dispatched by its action:
  \<open>create\<close> to \<open>createFile\<close>, \<open>update\<close> to \<open>updateFile\<close>, \<open>delete\<close> to \<open>deleteFile\<close>, which
  ignores the content. The content of a create or update entry is not validated: a
  missing content is replaced by the empty string and the entry is applied, as an entry
  whose content is the empty string is. The loop stops at the first entry that fails.
\<close>

theorem update_dispatch:
  "applyUpdate h st filePath
     \<lparr> update_path = p, update_action = ''create'', update_content = c \<rparr> =
     createFile h st filePath (case c of None \<Rightarrow> [] | Some text \<Rightarrow> text) \<and>
   applyUpdate h st filePath
     \<lparr> update_path = p, update_action = ''update'', update_content = c \<rparr> =
     updateFile h st filePath (case c of None \<Rightarrow> [] | Some text \<Rightarrow> text) \<and>
   applyUpdate h st filePath
     \<lparr> update_path = p, update_action = ''delete'', update_content = c \<rparr> =
     deleteFile h st filePath \<and>
   applyUpdate h st filePath (file\<lparr> update_content := None \<rparr>) =
     applyUpdate h st filePath (file\<lparr> update_content := Some [] \<rparr>) \<and>
   applyUpdates h st projectPath (file # rest) updatedFiles =
     (case applyUpdate h st (path_join h projectPath (update_path file)) file of
        (st', Inl e) \<Rightarrow> (st', Inl e)
      | (st', Inr u) \<Rightarrow>
          applyUpdates h st' projectPath rest
            (updatedFiles @ [path_join h projectPath (update_path file)]))"
  by (simp add: applyUpdate_def content_or_empty_def)

text \<open>
  C9 as stated fails: a create entry without content is not rejected; it creates an
  empty file.
\<close>

theorem update_dispatch_counterexample:
  "applyUpdates memhost ([(''/p'', Directory)], []) ''/p''
     [\<lparr> update_path = ''a.txt'', update_action = ''create'', update_content = None \<rparr>] [] =
   (([(''/p'', Directory), (''/p/a.txt'', File [])], [FileCreateOperation ''/p/a.txt'']),
    Inr [''/p/a.txt''])"
  by (simp add: applyUpdate_def content_or_empty_def createFile_def ensureDirectory_def
      fileExists_def memhost_def mem_stat_def mem_dirname_def mem_join_def mem_writeFile_def
      utf8_def recordOperation_def maxHistorySize_def)

end
